theory Spec2Isabelle
  imports Complex_Main "HOL-Library.Sublist"
begin

section \<open>Python values used by export2kml.py\<close>

text \<open>
  Exceptions are values.  The string carried by an exception is what \<^verbatim>\<open>str(e)\<close>
  shows, except for \<open>NameError\<close>, which carries the undefined name.
\<close>

datatype error =
    RuntimeError string
  | ValueError string
  | NameError string
  | AttributeError string
  | FileNotFoundError string

definition quote :: "string" where
  "quote = [char_of (39::nat)]"

fun message_of :: "error \<Rightarrow> string" where
  "message_of (RuntimeError m) = m"
| "message_of (ValueError m) = m"
| "message_of (NameError n) = ''name '' @ quote @ n @ quote @ '' is not defined''"
| "message_of (AttributeError m) = m"
| "message_of (FileNotFoundError p) = ''[Errno 2] No such file or directory: '' @ quote @ p @ quote"

subsection \<open>Strings: \<^verbatim>\<open>str.strip\<close>, \<^verbatim>\<open>str.lower\<close>\<close>

text \<open>
  Characters are bytes; only the ASCII white space and the ASCII letters are
  treated, which covers every constant of the source.
\<close>

definition is_space :: "char \<Rightarrow> bool" where
  "is_space c = (of_char c \<in> set [9, 10, 11, 12, 13, 28, 29, 30, 31, 32 :: nat])"

definition strip :: "string \<Rightarrow> string" where
  "strip s = rev (dropWhile is_space (rev (dropWhile is_space s)))"

definition lower_char :: "char \<Rightarrow> char" where
  "lower_char c =
     (let n = (of_char c :: nat) in if 65 \<le> n \<and> n \<le> 90 then char_of (n + 32) else c)"

definition lower :: "string \<Rightarrow> string" where
  "lower s = map lower_char s"

subsection \<open>\<^verbatim>\<open>os.path\<close> (POSIX flavour)\<close>

definition sep :: char where
  "sep = CHR ''/''"

definition extsep :: char where
  "extsep = CHR ''.''"

text \<open>\<^verbatim>\<open>os.path.basename(p)\<close>: what follows the last separator.\<close>

definition basename :: "string \<Rightarrow> string" where
  "basename p = rev (takeWhile (\<lambda>c. c \<noteq> sep) (rev p))"

text \<open>\<^verbatim>\<open>p.rfind(c)\<close>: the last index of \<open>c\<close>, or \<open>-1\<close>.\<close>

definition rfind :: "char \<Rightarrow> string \<Rightarrow> int" where
  "rfind c p =
     (if c \<in> set p then int (length p) - 1 - int (length (takeWhile (\<lambda>x. x \<noteq> c) (rev p)))
      else - 1)"

text \<open>
  \<^verbatim>\<open>os.path.splitext(p)\<close>: split at the last dot of the last component, unless
  only dots come before it in that component.
\<close>

definition splitext :: "string \<Rightarrow> string \<times> string" where
  "splitext p =
     (let sepIndex = rfind sep p; dotIndex = rfind extsep p in
      if dotIndex > sepIndex \<and>
         list_ex (\<lambda>c. c \<noteq> extsep)
           (take (nat dotIndex - nat (sepIndex + 1)) (drop (nat (sepIndex + 1)) p))
      then (take (nat dotIndex) p, drop (nat dotIndex) p)
      else (p, []))"

text \<open>\<^verbatim>\<open>os.path.join(a, b)\<close> for two components.\<close>

definition join :: "string \<Rightarrow> string \<Rightarrow> string" where
  "join a b =
     (if b \<noteq> [] \<and> hd b = sep then b
      else if a = [] \<or> last a = sep then a @ b
      else a @ [sep] @ b)"

text \<open>\<^verbatim>\<open>os.path.splitext(os.path.basename(path))[0]\<close>, lines 72 and 124.\<close>

definition base_name :: "string \<Rightarrow> string" where
  "base_name path = fst (splitext (basename path))"

section \<open>Element trees (\<^verbatim>\<open>xml.etree.ElementTree\<close>)\<close>

datatype xml =
  Element (etag: string) (eattrib: "(string \<times> string) list") (etext: "string option")
    (echildren: "xml list")

text \<open>
  \<^verbatim>\<open>ET.SubElement(parent, ...)\<close> and \<^verbatim>\<open>parent.append(c)\<close> put a child after the
  children already there.  The source appends an empty child and fills it afterwards
  through the shared reference; the model builds the child first and appends it then,
  which gives the same tree.
\<close>

definition append_child :: "xml \<Rightarrow> xml \<Rightarrow> xml" where
  "append_child parent c =
     Element (etag parent) (eattrib parent) (etext parent) (echildren parent @ [c])"

text \<open>\<^verbatim>\<open>e.find(tag)\<close> and \<^verbatim>\<open>e.findtext(tag)\<close>: the first child with that tag.\<close>

definition find_child :: "string \<Rightarrow> xml \<Rightarrow> xml option" where
  "find_child t e = List.find (\<lambda>c. etag c = t) (echildren e)"

definition findtext :: "string \<Rightarrow> xml \<Rightarrow> string option" where
  "findtext t e = (case find_child t e of None \<Rightarrow> None | Some c \<Rightarrow> etext c)"

text \<open>A leaf \<^verbatim>\<open>ET.SubElement(parent, tag).text = s\<close>.\<close>

definition text_element :: "string \<Rightarrow> string \<Rightarrow> xml" where
  "text_element t s = Element t [] (Some s) []"

text \<open>\<^verbatim>\<open>make_kml_root\<close>, lines 48-54: the root owns the document element.\<close>

definition new_document :: xml where
  "new_document = Element ''Document'' [] None []"

definition kml_root :: "xml \<Rightarrow> xml" where
  "kml_root doc = Element ''kml'' [(''xmlns'', ''http://www.opengis.net/kml/2.2'')] None [doc]"

definition make_kml_root :: "xml \<times> xml" where
  "make_kml_root = (kml_root new_document, new_document)"

section \<open>Property bindings\<close>

text \<open>
  \<open>props\<close> is the dictionary handed to the two exporters: string entries
  (\<open>folder_name\<close>, \<open>name\<close>, \<open>description\<close>, and the other KML properties) and the
  list entry \<open>fields\<close>.
\<close>

record props =
  strs :: "string \<rightharpoonup> string"
  fields_entry :: "string list option"

text \<open>
  \<^verbatim>\<open>props.get(k)\<close> used as a condition: a missing entry and an empty string are both
  false.
\<close>

definition get_truthy :: "props \<Rightarrow> string \<Rightarrow> string option" where
  "get_truthy p k = (case strs p k of None \<Rightarrow> None | Some s \<Rightarrow> if s = [] then None else Some s)"

definition get_fields :: "props \<Rightarrow> string list option" where
  "get_fields p = (case fields_entry p of None \<Rightarrow> None | Some fs \<Rightarrow> if fs = [] then None else Some fs)"

definition KML_PROPS :: "string list" where
  "KML_PROPS = [''Name'', ''description'', ''timestamp'', ''begin'', ''end'',
     ''altitudeMode'', ''tessellate'', ''extrude'', ''visibility'', ''drawOrder'', ''icon'']"

section \<open>Vector layers (OGR)\<close>

text \<open>
  A feature answers \<^verbatim>\<open>GetField(name)\<close> for the fields of its layer (the Python value,
  \<open>None\<close> included, is a value of \<open>'v\<close>) and carries a geometry or none.  A layer has its
  field names in schema order and its features in reading order; a data source is the
  list of its layers.
\<close>

record ('v, 'g) feature =
  GetField :: "string \<Rightarrow> 'v"
  GetGeometryRef :: "'g option"

record ('v, 'g) layer =
  field_names :: "string list"
  features :: "('v, 'g) feature list"

section \<open>Raster data (QGIS and GDAL)\<close>

text \<open>The six coefficients of \<^verbatim>\<open>GetGeoTransform()\<close>, \<open>gt[0]\<close> to \<open>gt[5]\<close>.\<close>

record geotransform =
  origin_x :: real
  pixel_width :: real
  row_rotation :: real
  origin_y :: real
  column_rotation :: real
  pixel_height :: real

record dataset =
  GetProjection :: string
  GetGeoTransform :: geotransform
  RasterXSize :: int
  RasterYSize :: int

text \<open>A valid \<^verbatim>\<open>QgsRasterLayer\<close>: its size and what the render job draws for it.\<close>

record 'img raster_layer =
  width :: int
  height :: int
  renderedImage :: 'img

section \<open>The libraries the exporter calls\<close>

text \<open>
  Everything the source obtains from OGR, GDAL, OSR, QGIS, Qt and the Python runtime is
  a field of the environment:
  \<^item> \<open>py_str\<close>, \<open>float_str\<close>: \<^verbatim>\<open>str\<close> on an attribute value and on a float;
  \<^item> \<open>ogr_Open\<close>: the layers of the data source, or \<open>None\<close> when it cannot be opened;
  \<^item> \<open>geometry_kml\<close>: lines 106-107, the element children of the parsed
    \<^verbatim>\<open><r>...</r>\<close> wrapper around \<^verbatim>\<open>ExportToKML()\<close> of the geometry rebuilt from its
    WKB, or the exception raised on the way;
  \<^item> \<open>QgsRasterLayer\<close>: the raster layer, \<open>None\<close> when it is not valid;
  \<^item> \<open>opaque_on_white\<close>: lines 150-154, the image drawn over a white image of the
    given size;
  \<^item> \<open>gdal_Open\<close>, \<open>SpatialReference\<close> (from WKT), \<open>ImportFromEPSG\<close>, \<open>IsSame\<close>, and
    \<open>Warp\<close> (\<^verbatim>\<open>gdal.Warp('', ds, format='VRT', dstSRS='EPSG:4326')\<close>, which has no
    destination file).
\<close>

record ('v, 'g, 'img, 'srs) env =
  py_str :: "'v \<Rightarrow> string"
  float_str :: "real \<Rightarrow> string"
  ogr_Open :: "string \<Rightarrow> ('v, 'g) layer list option"
  geometry_kml :: "'g \<Rightarrow> error + xml list"
  QgsRasterLayer :: "string \<Rightarrow> 'img raster_layer option"
  opaque_on_white :: "int \<Rightarrow> int \<Rightarrow> 'img \<Rightarrow> 'img"
  gdal_Open :: "string \<Rightarrow> dataset option"
  SpatialReference :: "string \<Rightarrow> 'srs"
  ImportFromEPSG :: "nat \<Rightarrow> 'srs"
  IsSame :: "'srs \<Rightarrow> 'srs \<Rightarrow> bool"
  Warp :: "dataset \<Rightarrow> error + dataset"

section \<open>\<^verbatim>\<open>add_vector_layer\<close>, lines 57-111\<close>

text \<open>Lines 84-87 and 90-93: a binding is a field name when the schema has it, else a literal.\<close>

definition resolve :: "('v, 'g, 'img, 'srs) env \<Rightarrow> string list \<Rightarrow> ('v, 'g) feature \<Rightarrow> string \<Rightarrow> string" where
  "resolve E avail feat nm = (if nm \<in> set avail then py_str E (GetField feat nm) else nm)"

definition bound_element ::
  "('v, 'g, 'img, 'srs) env \<Rightarrow> props \<Rightarrow> string list \<Rightarrow> ('v, 'g) feature \<Rightarrow> string \<Rightarrow> xml list" where
  "bound_element E p avail feat k =
     (case get_truthy p k of
        None \<Rightarrow> []
      | Some nm \<Rightarrow> [text_element k (resolve E avail feat nm)])"

text \<open>Lines 100-101: one \<open>Data\<close> element with its \<open>value\<close> child.\<close>

definition data_element :: "('v, 'g, 'img, 'srs) env \<Rightarrow> ('v, 'g) feature \<Rightarrow> string \<Rightarrow> xml" where
  "data_element E feat fld =
     Element ''Data'' [(''name'', fld)] None [text_element ''value'' (py_str E (GetField feat fld))]"

text \<open>Lines 96-101.\<close>

definition extended_data ::
  "('v, 'g, 'img, 'srs) env \<Rightarrow> props \<Rightarrow> string list \<Rightarrow> ('v, 'g) feature \<Rightarrow> xml list" where
  "extended_data E p avail feat =
     (case get_fields p of
        None \<Rightarrow> []
      | Some fs \<Rightarrow>
          [Element ''ExtendedData'' [] None
             (map (data_element E feat) (filter (\<lambda>fld. fld \<in> set avail) fs))])"

text \<open>Lines 104-109: nothing for a feature without geometry.\<close>

definition geometry_elements ::
  "('v, 'g, 'img, 'srs) env \<Rightarrow> ('v, 'g) feature \<Rightarrow> error + xml list" where
  "geometry_elements E feat =
     (case GetGeometryRef feat of None \<Rightarrow> Inr [] | Some geom \<Rightarrow> geometry_kml E geom)"

text \<open>Lines 81-109, one pass of the loop body.\<close>

definition placemark ::
  "('v, 'g, 'img, 'srs) env \<Rightarrow> props \<Rightarrow> string list \<Rightarrow> ('v, 'g) feature \<Rightarrow> error + xml" where
  "placemark E p avail feat =
     (case geometry_elements E feat of
        Inl e \<Rightarrow> Inl e
      | Inr gs \<Rightarrow>
          Inr (Element ''Placemark'' [] None
                 (bound_element E p avail feat ''name'' @
                  bound_element E p avail feat ''description'' @
                  extended_data E p avail feat @ gs)))"

text \<open>The loop of line 80: the first exception ends it.\<close>

fun placemarks ::
  "('v, 'g, 'img, 'srs) env \<Rightarrow> props \<Rightarrow> string list \<Rightarrow> ('v, 'g) feature list \<Rightarrow> error + xml list" where
  "placemarks E p avail [] = Inr []"
| "placemarks E p avail (feat # rest) =
     (case placemark E p avail feat of
        Inl e \<Rightarrow> Inl e
      | Inr pm \<Rightarrow>
          (case placemarks E p avail rest of
             Inl e \<Rightarrow> Inl e
           | Inr pms \<Rightarrow> Inr (pm # pms)))"

definition folder_label :: "props \<Rightarrow> string \<Rightarrow> string" where
  "folder_label p path =
     (case get_truthy p ''folder_name'' of Some s \<Rightarrow> s | None \<Rightarrow> base_name path)"

definition folder :: "string \<Rightarrow> xml list \<Rightarrow> xml" where
  "folder label pms = Element ''Folder'' [] None (text_element ''name'' label # pms)"

definition add_vector_layer ::
  "('v, 'g, 'img, 'srs) env \<Rightarrow> xml \<Rightarrow> string \<Rightarrow> props \<Rightarrow> error + xml" where
  "add_vector_layer E doc path p =
     (case ogr_Open E path of
        None \<Rightarrow> Inl (RuntimeError (''Cannot open vector '' @ path))
      | Some ds \<Rightarrow>
          (case ds of
             [] \<Rightarrow> Inl (AttributeError ''GetLayerDefn'')
           | lyr # _ \<Rightarrow>
               (case placemarks E p (field_names lyr) (features lyr) of
                  Inl e \<Rightarrow> Inl e
                | Inr pms \<Rightarrow> Inr (append_child doc (folder (folder_label p path) pms)))))"

section \<open>\<^verbatim>\<open>add_raster_layer\<close>, lines 114-188\<close>

text \<open>
  Files are the regular files of the file system; directories are not modelled, so
  \<^verbatim>\<open>os.makedirs\<close> has no counterpart.  A serialised tree is kept as the tree.
\<close>

datatype 'img content =
    XmlFile xml
  | PngFile 'img
  | ZipFile "(string \<times> 'img content) list"

text \<open>
  Lines 163-167: the data set whose transform gives the bounds.  Floats are taken as
  reals; rounding is not modelled.
\<close>

definition geographic_dataset :: "('v, 'g, 'img, 'srs) env \<Rightarrow> dataset \<Rightarrow> error + dataset" where
  "geographic_dataset E ds =
     (let src = SpatialReference E (GetProjection ds);
          tgt = ImportFromEPSG E 4326
      in if \<not> IsSame E src tgt then Warp E ds else Inr ds)"

record bounds =
  minx :: real
  miny :: real
  maxx :: real
  maxy :: real

text \<open>Lines 168-172.\<close>

definition geo_bounds :: "dataset \<Rightarrow> bounds" where
  "geo_bounds ds =
     (let gt = GetGeoTransform ds; xs = RasterXSize ds; ys = RasterYSize ds in
      \<lparr>minx = origin_x gt,
       miny = origin_y gt + pixel_height gt * real_of_int ys,
       maxx = origin_x gt + pixel_width gt * real_of_int xs,
       maxy = origin_y gt\<rparr>)"

text \<open>Line 178: \<^verbatim>\<open>props.get('folder_name') or props.get('name') or base\<close>.\<close>

definition overlay_label :: "props \<Rightarrow> string \<Rightarrow> string" where
  "overlay_label p base =
     (case get_truthy p ''folder_name'' of
        Some s \<Rightarrow> s
      | None \<Rightarrow> (case get_truthy p ''name'' of Some s \<Rightarrow> s | None \<Rightarrow> base))"

text \<open>Lines 182-186.\<close>

definition lat_lon_box :: "('v, 'g, 'img, 'srs) env \<Rightarrow> bounds \<Rightarrow> xml" where
  "lat_lon_box E b =
     Element ''LatLonBox'' [] None
       [text_element ''north'' (float_str E (maxy b)),
        text_element ''south'' (float_str E (miny b)),
        text_element ''east'' (float_str E (maxx b)),
        text_element ''west'' (float_str E (minx b))]"

text \<open>Lines 176-186.\<close>

definition ground_overlay ::
  "('v, 'g, 'img, 'srs) env \<Rightarrow> props \<Rightarrow> string \<Rightarrow> string \<Rightarrow> bounds \<Rightarrow> xml" where
  "ground_overlay E p base img_name b =
     Element ''GroundOverlay'' [] None
       [text_element ''visibility'' ''1'',
        text_element ''name'' (overlay_label p base),
        Element ''Icon'' [] None [text_element ''href'' (''rasters/'' @ img_name)],
        lat_lon_box E b]"

definition image_path :: "string \<Rightarrow> string \<Rightarrow> string" where
  "image_path rasters_dir path = join rasters_dir (base_name path @ ''.png'')"

text \<open>
  The whole function.  The file system is returned on every path: the image saved at
  line 157 stays when a later step raises.  \<^verbatim>\<open>rgb.save\<close> is taken to write the file
  (the source does not look at what it returns).
\<close>

definition add_raster_layer ::
  "('v, 'g, 'img, 'srs) env \<Rightarrow> xml \<Rightarrow> string \<Rightarrow> props \<Rightarrow> string \<Rightarrow> (string \<rightharpoonup> 'img content) \<Rightarrow>
     (string \<rightharpoonup> 'img content) \<times> (error + xml \<times> string)" where
  "add_raster_layer E doc path p rasters_dir fs =
     (let base = base_name path;
          img_name = base @ ''.png'';
          img_path = join rasters_dir img_name
      in case QgsRasterLayer E path of
           None \<Rightarrow> (fs, Inl (RuntimeError (''Cannot load raster '' @ path)))
         | Some rlayer \<Rightarrow>
             (let rgb = opaque_on_white E (width rlayer) (height rlayer) (renderedImage rlayer);
                  fs' = fs(img_path \<mapsto> PngFile rgb)
              in case gdal_Open E path of
                   None \<Rightarrow> (fs', Inl (RuntimeError (''Cannot open raster '' @ path)))
                 | Some ds \<Rightarrow>
                     (case geographic_dataset E ds of
                        Inl e \<Rightarrow> (fs', Inl e)
                      | Inr ds' \<Rightarrow>
                          (fs', Inr (append_child doc
                                       (ground_overlay E p base img_name (geo_bounds ds')),
                                     img_path)))))"

section \<open>\<^verbatim>\<open>Export2KML.run_export\<close>, lines 350-437\<close>

text \<open>
  A layer of \<open>all_layers\<close> together with its table row: whether it is a
  \<open>QgsRasterLayer\<close>, its source, its check box, and the current text of the combo box
  in each column.
\<close>

record table_layer =
  is_raster :: bool
  source :: string
  isChecked :: bool
  currentText :: "nat \<Rightarrow> string"

text \<open>
  The plugin object: \<open>output_path\<close> (absent until an output file is chosen), whether
  the dialog has a progress bar, and the layers.
\<close>

record plugin =
  output_path :: "string option"
  progressBar :: bool
  all_layers :: "table_layer list"

datatype progress_call = setValue int | setVisible bool

datatype message = Critical string | PushMessage string string

record 'img world =
  files :: "string \<rightharpoonup> 'img content"
  progress_calls :: "progress_call list"
  messages :: "message list"
  dialog_open :: bool

text \<open>Lines 392-397.\<close>

definition read_prop :: "(nat \<Rightarrow> string) \<Rightarrow> nat \<times> string \<Rightarrow> props \<Rightarrow> props" where
  "read_prop combo jp p =
     (let text = strip (combo (fst jp)) in
      if text \<noteq> [] \<and> text \<noteq> ''<None>'' then p\<lparr>strs := (strs p)(lower (snd jp) \<mapsto> text)\<rparr>
      else p)"

definition read_props :: "(nat \<Rightarrow> string) \<Rightarrow> props" where
  "read_props combo =
     fold (read_prop combo) (enumerate 3 KML_PROPS) \<lparr>strs = Map.empty, fields_entry = None\<rparr>"

text \<open>Lines 380-383.\<close>

definition total_rasters :: "table_layer list \<Rightarrow> int" where
  "total_rasters ls = int (length (filter (\<lambda>lyr. is_raster lyr \<and> isChecked lyr) ls))"

text \<open>Line 406: \<^verbatim>\<open>int(raster_count / total_rasters * 100)\<close>, in exact arithmetic.\<close>

definition pct :: "int \<Rightarrow> int \<Rightarrow> int" where
  "pct raster_count total_n = \<lfloor>real_of_int raster_count / real_of_int total_n * 100\<rfloor>"

record run_state =
  doc :: xml
  collected :: "string list"
  raster_count :: int

text \<open>Lines 388-411, one pass of the loop body.\<close>

definition export_layer ::
  "('v, 'g, 'img, 'srs) env \<Rightarrow> bool \<Rightarrow> int \<Rightarrow> string \<Rightarrow> table_layer \<Rightarrow> run_state \<Rightarrow> 'img world \<Rightarrow>
     'img world \<times> (error + run_state)" where
  "export_layer E progress total_n rasters_dir lyr st w =
     (if \<not> isChecked lyr then (w, Inr st)
      else
        (let path = source lyr; p = read_props (currentText lyr) in
         if is_raster lyr then
           (case add_raster_layer E (doc st) path p rasters_dir (files w) of
              (fs, Inl e) \<Rightarrow> (w\<lparr>files := fs\<rparr>, Inl e)
            | (fs, Inr (d, png_path)) \<Rightarrow>
                (let n = raster_count st + 1 in
                 (w\<lparr>files := fs,
                    progress_calls := progress_calls w @
                      (if progress \<and> total_n \<noteq> 0 then [setValue (pct n total_n)] else [])\<rparr>,
                  Inr \<lparr>doc = d, collected = collected st @ [png_path], raster_count = n\<rparr>)))
         else
           (case add_vector_layer E (doc st) path p of
              Inl e \<Rightarrow> (w, Inl e)
            | Inr d \<Rightarrow> (w, Inr (st\<lparr>doc := d\<rparr>)))))"

text \<open>The loop of line 387: the first exception leaves it.\<close>

fun export_layers ::
  "('v, 'g, 'img, 'srs) env \<Rightarrow> bool \<Rightarrow> int \<Rightarrow> string \<Rightarrow> table_layer list \<Rightarrow> run_state \<Rightarrow> 'img world \<Rightarrow>
     'img world \<times> (error + run_state)" where
  "export_layers E progress total_n rasters_dir [] st w = (w, Inr st)"
| "export_layers E progress total_n rasters_dir (lyr # rest) st w =
     (case export_layer E progress total_n rasters_dir lyr st w of
        (w', Inl e) \<Rightarrow> (w', Inl e)
      | (w', Inr st') \<Rightarrow> export_layers E progress total_n rasters_dir rest st' w')"

text \<open>
  \<^verbatim>\<open>zf.write(f, arcname)\<close> for each pair in turn: a missing file raises, and the
  archive keeps the entries written before.
\<close>

fun zip_write ::
  "(string \<rightharpoonup> 'img content) \<Rightarrow> (string \<times> string) list \<Rightarrow> (string \<times> 'img content) list \<Rightarrow>
     (string \<times> 'img content) list \<times> (error + unit)" where
  "zip_write fs [] entries = (entries, Inr ())"
| "zip_write fs ((f, arcname) # rest) entries =
     (case fs f of
        None \<Rightarrow> (entries, Inl (FileNotFoundError f))
      | Some c \<Rightarrow> zip_write fs rest (entries @ [(arcname, c)]))"

text \<open>
  Lines 418-426.  Opening the archive for writing empties the output file before the
  members are read.
\<close>

definition package ::
  "(string \<rightharpoonup> 'img content) \<Rightarrow> string \<Rightarrow> string list \<Rightarrow> string \<Rightarrow>
     (string \<rightharpoonup> 'img content) \<times> (error + unit)" where
  "package fs kml_file coll out =
     (if coll \<noteq> [] then
        (case zip_write (fs(out \<mapsto> ZipFile []))
                ((kml_file, ''doc.kml'') # map (\<lambda>f. (f, ''rasters/'' @ basename f)) coll) [] of
           (entries, r) \<Rightarrow> (fs(out \<mapsto> ZipFile entries), r))
      else
        (case fs kml_file of
           None \<Rightarrow> (fs, Inl (FileNotFoundError kml_file))
         | Some c \<Rightarrow> ((fs(kml_file := None))(out \<mapsto> c), Inr ())))"

text \<open>
  The names bound in the module: the imports of lines 11-34 and the definitions of
  the file.  Any other global name that is not a builtin raises \<open>NameError\<close> when
  it is evaluated; \<open>Qgis\<close> is such a name.
\<close>

definition module_globals :: "string list" where
  "module_globals =
     [''os'', ''tempfile'', ''zipfile'', ''ET'', ''uic'',
      ''QAction'', ''QFileDialog'', ''QTableWidgetItem'', ''QCheckBox'', ''QComboBox'',
      ''QMessageBox'', ''QIcon'', ''QImage'', ''QPainter'', ''Qt'', ''QSize'',
      ''QgsProject'', ''QgsVectorLayer'', ''QgsRasterLayer'', ''QgsMapSettings'',
      ''QgsMapRendererParallelJob'', ''ogr'', ''gdal'', ''osr'',
      ''KML_PROPS'', ''make_kml_root'', ''add_vector_layer'', ''add_raster_layer'',
      ''Export2KML'']"

definition lookup_global :: "string \<Rightarrow> error + unit" where
  "lookup_global n = (if n \<in> set module_globals then Inr () else Inl (NameError n))"

definition show_progress :: "bool \<Rightarrow> progress_call list \<Rightarrow> 'img world \<Rightarrow> 'img world" where
  "show_progress progress calls w =
     (if progress then w\<lparr>progress_calls := progress_calls w @ calls\<rparr> else w)"

text \<open>
  Lines 358-434, the body of the \<open>try\<close>.  \<open>tmp\<close> is the directory
  \<^verbatim>\<open>tempfile.mkdtemp()\<close> returns.  The arguments of \<^verbatim>\<open>pushMessage\<close> are evaluated
  before the call, \<^verbatim>\<open>Qgis.Info\<close> among them.
\<close>

definition run_export_try ::
  "('v, 'g, 'img, 'srs) env \<Rightarrow> plugin \<Rightarrow> string \<Rightarrow> 'img world \<Rightarrow> 'img world \<times> (error + unit)" where
  "run_export_try E self tmp w =
     (case output_path self of
        None \<Rightarrow> (w, Inl (ValueError ''Please select an output file''))
      | Some out \<Rightarrow>
          if out = [] then (w, Inl (ValueError ''Please select an output file''))
          else
            (let rasters_dir = join tmp ''rasters'';
                 progress = progressBar self;
                 w1 = show_progress progress [setValue 0, setVisible True] w
             in case export_layers E progress (total_rasters (all_layers self)) rasters_dir
                       (all_layers self)
                       \<lparr>doc = snd make_kml_root, collected = [], raster_count = 0\<rparr> w1 of
                  (w2, Inl e) \<Rightarrow> (w2, Inl e)
                | (w2, Inr st) \<Rightarrow>
                    (let kml_file = join tmp ''doc.kml'';
                         fs3 = (files w2)(kml_file \<mapsto> XmlFile (kml_root (doc st)))
                     in case package fs3 kml_file (collected st) out of
                          (fs4, Inl e) \<Rightarrow> (w2\<lparr>files := fs4\<rparr>, Inl e)
                        | (fs4, Inr u) \<Rightarrow>
                            (let w5 = show_progress progress [setVisible False] (w2\<lparr>files := fs4\<rparr>)
                             in case lookup_global ''Qgis'' of
                                  Inl e \<Rightarrow> (w5, Inl e)
                                | Inr u' \<Rightarrow>
                                    (w5\<lparr>messages := messages w5 @
                                          [PushMessage ''Export 2KML'' (''Exported to '' @ out)],
                                        dialog_open := False\<rparr>,
                                     Inr ())))))"

text \<open>Lines 436-437: every exception ends in one error box.\<close>

definition run_export ::
  "('v, 'g, 'img, 'srs) env \<Rightarrow> plugin \<Rightarrow> string \<Rightarrow> 'img world \<Rightarrow> 'img world" where
  "run_export E self tmp w =
     (case run_export_try E self tmp w of
        (w', Inl e) \<Rightarrow> w'\<lparr>messages := messages w' @ [Critical (message_of e)]\<rparr>
      | (w', Inr u) \<Rightarrow> w')"

section \<open>Reading the results\<close>


text \<open>The checked raster layers of the table, in table order.\<close>

definition checked_rasters :: "table_layer list \<Rightarrow> table_layer list" where
  "checked_rasters ls = filter (\<lambda>lyr. isChecked lyr \<and> is_raster lyr) ls"


section \<open>A small instance\<close>

text \<open>
  A concrete environment on which the definitions can be run: attribute values are
  \<open>None\<close>, integers and strings, geometries are named by their WKT, an image is a
  number, and a spatial reference is its definition in lower case without blanks.
\<close>

datatype pyval = PyNone | PyInt int | PyStr string

fun decimal :: "nat \<Rightarrow> string" where
  "decimal n =
     (if n < 10 then [char_of (48 + n)] else decimal (n div 10) @ [char_of (48 + n mod 10)])"

declare decimal.simps [simp del]

fun str :: "pyval \<Rightarrow> string" where
  "str PyNone = ''None''"
| "str (PyInt i) = (if i < 0 then ''-'' @ decimal (nat (- i)) else decimal (nat i))"
| "str (PyStr s) = s"

text \<open>One digit after the point is enough for the instance.\<close>

definition str_float :: "real \<Rightarrow> string" where
  "str_float r =
     (if r < 0 then ''-'' else []) @ decimal (nat \<lfloor>\<bar>r\<bar>\<rfloor>) @ ''.'' @
     decimal (nat \<lfloor>(\<bar>r\<bar> - real_of_int \<lfloor>\<bar>r\<bar>\<rfloor>) * 10\<rfloor>)"

definition town_A :: "(pyval, string) feature" where
  "town_A =
     \<lparr>GetField = (\<lambda>k. if k = ''id'' then PyStr ''A'' else if k = ''pop'' then PyInt 12 else PyNone),
      GetGeometryRef = Some ''POINT (1 2)''\<rparr>"

definition town_B :: "(pyval, string) feature" where
  "town_B =
     \<lparr>GetField = (\<lambda>k. if k = ''id'' then PyStr ''B'' else PyNone),
      GetGeometryRef = None\<rparr>"

definition towns :: "(pyval, string) layer" where
  "towns = \<lparr>field_names = [''id'', ''pop''], features = [town_A, town_B]\<rparr>"

definition north_up :: geotransform where
  "north_up =
     \<lparr>origin_x = 10, pixel_width = 1 / 2, row_rotation = 0,
      origin_y = 40, column_rotation = 0, pixel_height = - (1 / 2)\<rparr>"

definition dem :: dataset where
  "dem = \<lparr>GetProjection = ''WGS 84'', GetGeoTransform = north_up,
           RasterXSize = 100, RasterYSize = 50\<rparr>"

text \<open>A raster stored bottom row first: its pixel height is positive.\<close>

definition south_up :: geotransform where
  "south_up =
     \<lparr>origin_x = 10, pixel_width = 1 / 2, row_rotation = 0,
      origin_y = 15, column_rotation = 0, pixel_height = 1 / 2\<rparr>"

definition flipped :: dataset where
  "flipped = \<lparr>GetProjection = ''WGS 84'', GetGeoTransform = south_up,
               RasterXSize = 100, RasterYSize = 50\<rparr>"

definition utm :: dataset where
  "utm = \<lparr>GetProjection = ''UTM 33N'',
           GetGeoTransform = north_up\<lparr>origin_x := 500000, origin_y := 4500000,
             pixel_width := 30, pixel_height := - 30\<rparr>,
           RasterXSize = 100, RasterYSize = 50\<rparr>"

definition example_env :: "(pyval, string, nat, string) env" where
  "example_env =
     \<lparr>py_str = str,
      float_str = str_float,
      ogr_Open = (\<lambda>path. if path = ''/data/towns.shp'' then Some [towns] else None),
      geometry_kml = (\<lambda>g. if g = ''POINT (1 2)''
         then Inr [Element ''Point'' [] None [text_element ''coordinates'' ''1,2'']]
         else Inl (RuntimeError ''unsupported geometry'')),
      QgsRasterLayer = (\<lambda>path. if path \<in> set [''/data/dem.tif'', ''/data/flipped.tif'', ''/data/utm.tif'']
         then Some \<lparr>width = 100, height = 50, renderedImage = 7\<rparr> else None),
      opaque_on_white = (\<lambda>w h img. img),
      gdal_Open = (\<lambda>path. if path = ''/data/dem.tif'' then Some dem
         else if path = ''/data/flipped.tif'' then Some flipped
         else if path = ''/data/utm.tif'' then Some utm else None),
      SpatialReference = (\<lambda>wkt. filter (\<lambda>c. c \<noteq> CHR '' '') (lower wkt)),
      ImportFromEPSG = (\<lambda>n. if n = 4326 then ''wgs84'' else []),
      IsSame = (\<lambda>a b. a = b),
      Warp = (\<lambda>ds. Inr (ds\<lparr>GetProjection := ''WGS 84'', GetGeoTransform := north_up\<rparr>))\<rparr>"

definition no_text :: "nat \<Rightarrow> string" where
  "no_text j = ''<None>''"

definition towns_row :: table_layer where
  "towns_row =
     \<lparr>is_raster = False, source = ''/data/towns.shp'', isChecked = True,
      currentText = no_text(3 := ''id'')\<rparr>"


definition empty_world :: "nat world" where
  "empty_world = \<lparr>files = Map.empty, progress_calls = [], messages = [], dialog_open = True\<rparr>"

subsection \<open>Bindings, documents and runs of the instance\<close>


definition id_binding :: props where
  "id_binding = \<lparr>strs = [''name'' \<mapsto> ''id'', ''description'' \<mapsto> ''a town''], fields_entry = None\<rparr>"

definition name_binding :: props where
  "name_binding = \<lparr>strs = [''name'' \<mapsto> ''id''], fields_entry = None\<rparr>"

definition want_fields :: "string list \<Rightarrow> props" where
  "want_fields F = \<lparr>strs = Map.empty, fields_entry = Some F\<rparr>"

definition towns_document :: xml where
  "towns_document =
     append_child new_document
       (Element ''Folder'' [] None
          [text_element ''name'' ''towns'',
           Element ''Placemark'' [] None
             [text_element ''name'' ''A'', text_element ''description'' ''a town'',
              Element ''Point'' [] None [text_element ''coordinates'' ''1,2'']],
           Element ''Placemark'' [] None
             [text_element ''name'' ''B'', text_element ''description'' ''a town'']])"

definition towns_named_document :: xml where
  "towns_named_document =
     append_child new_document
       (Element ''Folder'' [] None
          [text_element ''name'' ''towns'',
           Element ''Placemark'' [] None
             [text_element ''name'' ''A'',
              Element ''Point'' [] None [text_element ''coordinates'' ''1,2'']],
           Element ''Placemark'' [] None [text_element ''name'' ''B'']])"


definition towns_zip_document :: xml where
  "towns_zip_document =
     append_child new_document
       (Element ''Folder'' [] None
          [text_element ''name'' ''towns'',
           Element ''Placemark'' [] None
             [Element ''ExtendedData'' [] None [],
              Element ''Point'' [] None [text_element ''coordinates'' ''1,2'']],
           Element ''Placemark'' [] None
             [Element ''ExtendedData'' [] None []]])"





definition vector_only :: plugin where
  "vector_only =
     \<lparr>output_path = Some ''/out/a.kml'', progressBar = True, all_layers = [towns_row]\<rparr>"


definition after_towns :: "nat world" where
  "after_towns =
     \<lparr>files = Map.empty, progress_calls = [setValue 0, setVisible True], messages = [],
      dialog_open = True\<rparr>"


section \<open>Paths\<close>

lemma sep_notin_basename: "sep \<notin> set (basename p)"
proof -
  have "\<forall>c \<in> set (takeWhile (\<lambda>c. c \<noteq> sep) (rev p)). c \<noteq> sep"
    by (metis (mono_tags, lifting) set_takeWhileD)
  then show ?thesis
    by (auto simp: basename_def)
qed

lemma set_splitext: "set (fst (splitext q)) \<subseteq> set q"
  by (auto simp: splitext_def Let_def dest: in_set_takeD)

lemma sep_notin_image_name: "sep \<notin> set (base_name path @ ''.png'')"
proof -
  have "sep \<notin> set (base_name path)"
    using set_splitext [of "basename path"] sep_notin_basename [of path]
    by (auto simp: base_name_def)
  then show ?thesis
    by (simp add: sep_def)
qed



lemma prefix_join:
  assumes "n = [] \<or> hd n \<noteq> sep"
  shows "prefix a (join a n)"
  using assms by (auto simp: join_def)


lemma image_path_prefix: "prefix tmp (image_path (join tmp ''rasters'') path)"
proof -
  have "hd (base_name path @ ''.png'') \<noteq> sep"
    using sep_notin_image_name [of path]
    by (metis append_is_Nil_conv hd_in_set list.distinct(1))
  then have "prefix (join tmp ''rasters'') (image_path (join tmp ''rasters'') path)"
    unfolding image_path_def by (intro prefix_join) simp
  moreover have "prefix tmp (join tmp ''rasters'')"
    by (intro prefix_join) (simp add: sep_def)
  ultimately show ?thesis
    by (rule prefix_order.trans [rotated])
qed




lemmas path_defs = base_name_def splitext_def basename_def rfind_def sep_def extsep_def
  join_def image_path_def

lemma base_name_towns: "base_name ''/data/towns.shp'' = ''towns''"
  by (simp add: path_defs)






lemma rasters_dir: "join ''/tmp/x'' ''rasters'' = ''/tmp/x/rasters''"
  by (simp add: join_def sep_def)

lemma kml_file: "join ''/tmp/x'' ''doc.kml'' = ''/tmp/x/doc.kml''"
  by (simp add: join_def sep_def)

section \<open>The vector exporter\<close>

lemma placemarks_Inr:
  "placemarks E p avail fs = Inr pms \<Longrightarrow> map (placemark E p avail) fs = map Inr pms"
  by (induction fs arbitrary: pms) (auto split: sum.splits)

lemma placemarks_nth:
  assumes "placemarks E p avail fs = Inr pms"
  shows "length pms = length fs"
    and "i < length fs \<Longrightarrow> placemark E p avail (fs ! i) = Inr (pms ! i)"
proof -
  have m: "map (placemark E p avail) fs = map Inr pms"
    using assms by (rule placemarks_Inr)
  from m show len: "length pms = length fs"
    by (metis length_map)
  assume "i < length fs"
  with m len show "placemark E p avail (fs ! i) = Inr (pms ! i)"
    by (metis nth_map)
qed

lemma add_vector_layer_Inr:
  assumes "add_vector_layer E d path p = Inr d'"
    and "ogr_Open E path = Some (lyr # others)"
  shows "\<exists>pms. d' = append_child d (folder (folder_label p path) pms) \<and>
           placemarks E p (field_names lyr) (features lyr) = Inr pms"
  using assms by (auto simp: add_vector_layer_def split: sum.splits)

lemma placemark_tag: "placemark E p avail feat = Inr pm \<Longrightarrow> etag pm = ''Placemark''"
  by (auto simp: placemark_def split: sum.splits)

lemma placemarks_tags:
  assumes "placemarks E p avail fs = Inr pms"
  shows "\<forall>pm \<in> set pms. etag pm = ''Placemark''"
proof
  fix pm assume "pm \<in> set pms"
  then obtain i where "i < length pms" "pm = pms ! i"
    by (auto simp: in_set_conv_nth)
  with placemarks_nth [OF assms] show "etag pm = ''Placemark''"
    by (metis placemark_tag)
qed

lemma findtext_bound:
  assumes "placemark E p avail feat = Inr pm"
    and "k = ''name'' \<or> k = ''description''"
    and "strs p k = Some b" and "b \<noteq> []"
  shows "findtext k pm = Some (if b \<in> set avail then py_str E (GetField feat b) else b)"
  using assms
  by (auto simp: placemark_def findtext_def find_child_def bound_element_def get_truthy_def
      text_element_def resolve_def split: sum.splits option.splits)

lemma find_extended_data:
  assumes "placemark E p avail feat = Inr pm"
    and "fields_entry p = Some F" and "F \<noteq> []"
  shows "find_child ''ExtendedData'' pm =
     Some (Element ''ExtendedData'' [] None
        (map (data_element E feat) (filter (\<lambda>fld. fld \<in> set avail) F)))"
  using assms
  by (auto simp: placemark_def find_child_def bound_element_def get_fields_def
      extended_data_def text_element_def split: sum.splits option.splits)




text \<open>
  The geometry of a placemark, as far as the exporter goes: none for a
  feature without geometry, and otherwise the elements that the OGR translation of that
  geometry yields, appended after the other children as they are.  What those elements
  contain is OGR's matter.
\<close>

lemma placemark_geometry:
  assumes "placemark E p avail feat = Inr pm"
  shows "(GetGeometryRef feat = None \<longrightarrow>
            echildren pm = bound_element E p avail feat ''name'' @
              bound_element E p avail feat ''description'' @ extended_data E p avail feat) \<and>
         (\<forall>geom. GetGeometryRef feat = Some geom \<longrightarrow>
            (\<exists>gs. geometry_kml E geom = Inr gs \<and>
               echildren pm = bound_element E p avail feat ''name'' @
                 bound_element E p avail feat ''description'' @ extended_data E p avail feat @ gs))"
  using assms by (auto simp: placemark_def geometry_elements_def split: sum.splits)

subsection \<open>The towns\<close>

lemmas vector_defs = add_vector_layer_def example_env_def towns_def town_A_def town_B_def
  placemark_def geometry_elements_def bound_element_def get_truthy_def
  resolve_def extended_data_def get_fields_def folder_def folder_label_def data_element_def
  want_fields_def


lemma towns_open: "ogr_Open example_env ''/data/towns.shp'' = Some (towns # [])"
  by (simp add: example_env_def)

lemma towns_export:
  "add_vector_layer example_env new_document ''/data/towns.shp'' id_binding =
     Inr (append_child new_document
       (Element ''Folder'' [] None
          [text_element ''name'' ''towns'',
           Element ''Placemark'' [] None
             [text_element ''name'' ''A'', text_element ''description'' ''a town'',
              Element ''Point'' [] None [text_element ''coordinates'' ''1,2'']],
           Element ''Placemark'' [] None
             [text_element ''name'' ''B'', text_element ''description'' ''a town'']]))"
  by (simp add: add_vector_layer_def example_env_def towns_def town_A_def town_B_def
      id_binding_def placemark_def geometry_elements_def bound_element_def get_truthy_def
      resolve_def extended_data_def get_fields_def folder_def folder_label_def
      base_name_def splitext_def basename_def rfind_def sep_def extsep_def)

lemma towns_described_export: "add_vector_layer example_env new_document ''/data/towns.shp'' id_binding = Inr towns_document"
  unfolding towns_document_def by (rule towns_export)

lemma towns_named_export:
  "add_vector_layer example_env new_document ''/data/towns.shp'' name_binding =
     Inr towns_named_document"
  by (simp add: vector_defs base_name_towns towns_named_document_def name_binding_def)


lemma towns_zip_export:
  "add_vector_layer example_env new_document ''/data/towns.shp''
     (want_fields [''zip'']) = Inr towns_zip_document"
  by (simp add: vector_defs base_name_towns towns_zip_document_def)

subsection \<open>Placemarks\<close>

text \<open>
  Claim C4.  When a vector layer is exported, the folder appended to the document has
  exactly one \<open>Placemark\<close> child per feature of the layer, and the \<open>i\<close>-th of them is
  the placemark built from the \<open>i\<close>-th feature in reading order: nothing is sorted,
  dropped or repeated.
\<close>

theorem placemark_count_and_order:
  assumes "add_vector_layer E d path p = Inr d'"
    and "ogr_Open E path = Some (lyr # others)"
  shows "\<exists>fld pms. d' = append_child d fld \<and> etag fld = ''Folder'' \<and>
           filter (\<lambda>c. etag c = ''Placemark'') (echildren fld) = pms \<and>
           length pms = length (features lyr) \<and>
           (\<forall>i < length (features lyr).
              placemark E p (field_names lyr) (features lyr ! i) = Inr (pms ! i))"
proof -
  from add_vector_layer_Inr [OF assms] obtain pms where
    d': "d' = append_child d (folder (folder_label p path) pms)" and
    pms: "placemarks E p (field_names lyr) (features lyr) = Inr pms"
    by blast
  have nth: "\<forall>i < length (features lyr).
      placemark E p (field_names lyr) (features lyr ! i) = Inr (pms ! i)"
    using placemarks_nth(2) [OF pms] by blast
  have len: "length pms = length (features lyr)"
    by (rule placemarks_nth(1) [OF pms])
  have "\<forall>pm \<in> set pms. etag pm = ''Placemark''"
  proof
    fix pm assume "pm \<in> set pms"
    then obtain i where "i < length pms" "pm = pms ! i"
      by (auto simp: in_set_conv_nth)
    with nth len show "etag pm = ''Placemark''"
      by (metis placemark_tag)
  qed
  then have "filter (\<lambda>c. etag c = ''Placemark'') pms = pms"
    by (simp add: filter_id_conv)
  then have "filter (\<lambda>c. etag c = ''Placemark'') (echildren (folder (folder_label p path) pms)) = pms"
    by (simp add: folder_def text_element_def)
  with d' len nth show ?thesis
    by (intro exI [of _ "folder (folder_label p path) pms"] exI [of _ pms])
       (simp add: folder_def)
qed

text \<open>
  The two towns are exported as two placemarks, in their order.
\<close>

theorem placemark_count_and_order_witness:
  "add_vector_layer example_env new_document ''/data/towns.shp'' id_binding = Inr towns_document \<and>
   ogr_Open example_env ''/data/towns.shp'' = Some (towns # []) \<and>
   (\<exists>fld pms. towns_document = append_child new_document fld \<and> etag fld = ''Folder'' \<and>
      filter (\<lambda>c. etag c = ''Placemark'') (echildren fld) = pms \<and>
      length pms = length (features towns) \<and>
      (\<forall>i < length (features towns).
         placemark example_env id_binding (field_names towns) (features towns ! i) = Inr (pms ! i)))"
  using placemark_count_and_order [OF towns_described_export towns_open] towns_described_export towns_open
  by blast

text \<open>
  Claim C2.  For a binding \<open>b\<close> of \<open>name\<close> or of \<open>description\<close> (an entry that is set,
  so not the empty string), every placemark of the layer has that child, and its text
  is the feature's value of field \<open>b\<close> as a string when \<open>b\<close> is a field of the schema,
  and \<open>b\<close> itself otherwise.
\<close>

theorem binding_resolution:
  assumes "add_vector_layer E d path p = Inr d'"
    and "ogr_Open E path = Some (lyr # others)"
    and "k = ''name'' \<or> k = ''description''"
    and "strs p k = Some b" and "b \<noteq> []"
  shows "\<exists>fld pms. d' = append_child d fld \<and>
           filter (\<lambda>c. etag c = ''Placemark'') (echildren fld) = pms \<and>
           length pms = length (features lyr) \<and>
           (\<forall>i < length (features lyr).
              findtext k (pms ! i) =
                Some (if b \<in> set (field_names lyr)
                      then py_str E (GetField (features lyr ! i) b) else b))"
proof -
  from add_vector_layer_Inr [OF assms(1,2)] obtain pms where
    d': "d' = append_child d (folder (folder_label p path) pms)" and
    pms: "placemarks E p (field_names lyr) (features lyr) = Inr pms"
    by blast
  have len: "length pms = length (features lyr)"
    by (rule placemarks_nth(1) [OF pms])
  have tags: "filter (\<lambda>c. etag c = ''Placemark'') (echildren (folder (folder_label p path) pms)) = pms"
    using placemarks_tags [OF pms] by (simp add: folder_def text_element_def filter_id_conv)
  have "\<forall>i < length (features lyr).
      findtext k (pms ! i) =
        Some (if b \<in> set (field_names lyr)
              then py_str E (GetField (features lyr ! i) b) else b)"
    using placemarks_nth(2) [OF pms] findtext_bound [OF _ assms(3-5)] by blast
  with d' len tags show ?thesis by blast
qed

text \<open>
  The binding \<open>id\<close> of the towns is a field of their schema, the binding \<open>a town\<close> is
  not.
\<close>

theorem binding_resolution_witness:
  "add_vector_layer example_env new_document ''/data/towns.shp'' id_binding = Inr towns_document \<and>
   ogr_Open example_env ''/data/towns.shp'' = Some (towns # []) \<and>
   strs id_binding ''name'' = Some ''id'' \<and> ''id'' \<noteq> [] \<and>
   ''id'' \<in> set (field_names towns) \<and>
   (\<exists>fld pms. towns_document = append_child new_document fld \<and>
      filter (\<lambda>c. etag c = ''Placemark'') (echildren fld) = pms \<and>
      length pms = length (features towns) \<and>
      (\<forall>i < length (features towns).
         findtext ''name'' (pms ! i) =
           Some (py_str example_env (GetField (features towns ! i) ''id'')))) \<and>
   strs id_binding ''description'' = Some ''a town'' \<and> ''a town'' \<noteq> [] \<and>
   ''a town'' \<notin> set (field_names towns) \<and>
   (\<exists>fld pms. towns_document = append_child new_document fld \<and>
      filter (\<lambda>c. etag c = ''Placemark'') (echildren fld) = pms \<and>
      length pms = length (features towns) \<and>
      (\<forall>i < length (features towns). findtext ''description'' (pms ! i) = Some ''a town''))"
proof -
  have b: "strs id_binding ''name'' = Some ''id''"
    and c: "strs id_binding ''description'' = Some ''a town''"
    by (simp_all add: id_binding_def)
  have k: "''name'' = ''name'' \<or> ''name'' = ''description''"
    and l: "''description'' = ''name'' \<or> ''description'' = ''description''"
    by simp_all
  have n: "''id'' \<noteq> []" and m: "''a town'' \<noteq> []"
    by simp_all
  have f: "''id'' \<in> set (field_names towns)" and g: "''a town'' \<notin> set (field_names towns)"
    by (simp_all add: towns_def)
  from binding_resolution [OF towns_described_export towns_open k b n] f
  have 1: "\<exists>fld pms. towns_document = append_child new_document fld \<and>
      filter (\<lambda>c. etag c = ''Placemark'') (echildren fld) = pms \<and>
      length pms = length (features towns) \<and>
      (\<forall>i < length (features towns).
         findtext ''name'' (pms ! i) =
           Some (py_str example_env (GetField (features towns ! i) ''id'')))"
    by (simp only: if_True)
  from binding_resolution [OF towns_described_export towns_open l c m] g
  have 2: "\<exists>fld pms. towns_document = append_child new_document fld \<and>
      filter (\<lambda>c. etag c = ''Placemark'') (echildren fld) = pms \<and>
      length pms = length (features towns) \<and>
      (\<forall>i < length (features towns). findtext ''description'' (pms ! i) = Some ''a town'')"
    by (simp only: if_False)
  from towns_described_export towns_open b c n m f g 1 2 show ?thesis
    by blast
qed

subsection \<open>Extended data\<close>




text \<open>
  Claim C10.  With a non-empty list of requested fields every placemark has an
  \<open>ExtendedData\<close> child, and that child has no children when none of the requested
  fields is in the schema.
\<close>

theorem extended_data_present:
  assumes "add_vector_layer E d path p = Inr d'"
    and "ogr_Open E path = Some (lyr # others)"
    and "fields_entry p = Some F" and "F \<noteq> []"
  shows "\<exists>fld pms. d' = append_child d fld \<and>
           filter (\<lambda>c. etag c = ''Placemark'') (echildren fld) = pms \<and>
           length pms = length (features lyr) \<and>
           (\<forall>i < length (features lyr). \<exists>ext.
              find_child ''ExtendedData'' (pms ! i) = Some ext \<and>
              etag ext = ''ExtendedData'' \<and>
              (set F \<inter> set (field_names lyr) = {} \<longrightarrow> echildren ext = []))"
proof -
  from add_vector_layer_Inr [OF assms(1,2)] obtain pms where
    d': "d' = append_child d (folder (folder_label p path) pms)" and
    pms: "placemarks E p (field_names lyr) (features lyr) = Inr pms"
    by blast
  have len: "length pms = length (features lyr)"
    by (rule placemarks_nth(1) [OF pms])
  have tags: "filter (\<lambda>c. etag c = ''Placemark'') (echildren (folder (folder_label p path) pms)) = pms"
    using placemarks_tags [OF pms] by (simp add: folder_def text_element_def filter_id_conv)
  have "\<exists>ext. find_child ''ExtendedData'' (pms ! i) = Some ext \<and>
      etag ext = ''ExtendedData'' \<and>
      (set F \<inter> set (field_names lyr) = {} \<longrightarrow> echildren ext = [])"
    if i: "i < length (features lyr)" for i
  proof -
    have pm: "placemark E p (field_names lyr) (features lyr ! i) = Inr (pms ! i)"
      by (rule placemarks_nth(2) [OF pms i])
    have "set F \<inter> set (field_names lyr) = {} \<Longrightarrow>
        filter (\<lambda>fld. fld \<in> set (field_names lyr)) F = []"
      by (auto simp: filter_empty_conv)
    with find_extended_data [OF pm assms(3,4)] show ?thesis
      by auto
  qed
  with d' len tags show ?thesis by blast
qed

text \<open>
  The towns have no field \<open>zip\<close>: the \<open>ExtendedData\<close> is there and empty.
\<close>

theorem extended_data_present_witness:
  "add_vector_layer example_env new_document ''/data/towns.shp'' (want_fields [''zip'']) =
     Inr towns_zip_document \<and>
   ogr_Open example_env ''/data/towns.shp'' = Some (towns # []) \<and>
   fields_entry (want_fields [''zip'']) = Some [''zip''] \<and> [''zip''] \<noteq> [] \<and>
   set [''zip''] \<inter> set (field_names towns) = {} \<and>
   (\<exists>fld pms. towns_zip_document = append_child new_document fld \<and>
      filter (\<lambda>c. etag c = ''Placemark'') (echildren fld) = pms \<and>
      length pms = length (features towns) \<and>
      (\<forall>i < length (features towns). \<exists>ext.
         find_child ''ExtendedData'' (pms ! i) = Some ext \<and>
         etag ext = ''ExtendedData'' \<and> echildren ext = []))"
proof -
  have f: "fields_entry (want_fields [''zip'']) = Some [''zip'']"
    by (simp add: want_fields_def)
  have n: "[''zip''] \<noteq> []"
    by simp
  have e: "set [''zip''] \<inter> set (field_names towns) = {}"
    by (simp add: towns_def)
  from extended_data_present [OF towns_zip_export towns_open f n] e
  have "\<exists>fld pms. towns_zip_document = append_child new_document fld \<and>
      filter (\<lambda>c. etag c = ''Placemark'') (echildren fld) = pms \<and>
      length pms = length (features towns) \<and>
      (\<forall>i < length (features towns). \<exists>ext.
         find_child ''ExtendedData'' (pms ! i) = Some ext \<and>
         etag ext = ''ExtendedData'' \<and> echildren ext = [])"
    by (simp only: simp_thms)
  with towns_zip_export towns_open f n e show ?thesis
    by blast
qed

section \<open>The raster exporter\<close>



lemma add_raster_layer_Inr:
  assumes "add_raster_layer E d path p dir fs = (fs', Inr (d', png))"
  shows "\<exists>rl ds ds'. QgsRasterLayer E path = Some rl \<and> gdal_Open E path = Some ds \<and>
           geographic_dataset E ds = Inr ds' \<and>
           d' = append_child d
                  (ground_overlay E p (base_name path) (base_name path @ ''.png'') (geo_bounds ds')) \<and>
           png = image_path dir path \<and>
           fs' = fs(image_path dir path \<mapsto>
                  PngFile (opaque_on_white E (width rl) (height rl) (renderedImage rl)))"
  using assms
  by (auto simp: add_raster_layer_def Let_def image_path_def split: option.splits sum.splits)

lemma add_raster_layer_files:
  assumes "add_raster_layer E d path p dir fs = (fs', r)"
  shows "fs' = fs \<or> (\<exists>img. fs' = fs(image_path dir path \<mapsto> PngFile img))"
  using assms
  by (auto simp: add_raster_layer_def Let_def image_path_def split: option.splits sum.splits)

subsection \<open>The rasters of the instance\<close>














subsection \<open>Reprojection and bounds\<close>






section \<open>The export run\<close>

subsection \<open>The loop over the layers\<close>


lemma export_layer_skip:
  "\<not> (isChecked lyr \<and> is_raster lyr) \<Longrightarrow> export_layer E pr tot dir lyr st w = (w', r) \<Longrightarrow>
     w' = w \<and> (\<forall>st'. r = Inr st' \<longrightarrow> collected st' = collected st \<and> raster_count st' = raster_count st)"
  by (auto simp: export_layer_def Let_def split: sum.splits if_splits)

lemma export_layer_raster_Inr:
  assumes "isChecked lyr" "is_raster lyr"
    and "export_layer E pr tot dir lyr st w = (w', Inr st')"
  shows "collected st' = collected st @ [image_path dir (source lyr)] \<and>
         raster_count st' = raster_count st + 1 \<and>
         messages w' = messages w \<and> dialog_open w' = dialog_open w \<and>
         progress_calls w' = progress_calls w @
           (if pr \<and> tot \<noteq> 0 then [setValue (pct (raster_count st + 1) tot)] else []) \<and>
         (\<exists>img. files w' = (files w)(image_path dir (source lyr) \<mapsto> PngFile img))"
proof -
  obtain fs r where a: "add_raster_layer E (doc st) (source lyr) (read_props (currentText lyr)) dir
      (files w) = (fs, r)"
    by (cases "add_raster_layer E (doc st) (source lyr) (read_props (currentText lyr)) dir (files w)")
  with assms obtain d png where r: "r = Inr (d, png)"
    by (cases r) (auto simp: export_layer_def Let_def)
  from add_raster_layer_Inr [OF a [unfolded r]]
  have png: "png = image_path dir (source lyr)"
    and fs: "\<exists>img. fs = (files w)(image_path dir (source lyr) \<mapsto> PngFile img)"
    by blast+
  from assms a r png fs show ?thesis
    by (auto simp: export_layer_def Let_def)
qed

lemma export_layer_raster_Inl:
  assumes "isChecked lyr" "is_raster lyr"
    and "export_layer E pr tot dir lyr st w = (w', Inl e)"
  shows "messages w' = messages w \<and> dialog_open w' = dialog_open w \<and>
         progress_calls w' = progress_calls w \<and>
         (files w' = files w \<or> (\<exists>img. files w' = (files w)(image_path dir (source lyr) \<mapsto> PngFile img)))"
proof -
  obtain fs r where a: "add_raster_layer E (doc st) (source lyr) (read_props (currentText lyr)) dir
      (files w) = (fs, r)"
    by (cases "add_raster_layer E (doc st) (source lyr) (read_props (currentText lyr)) dir (files w)")
  from add_raster_layer_files [OF a] assms a show ?thesis
    by (cases r) (auto simp: export_layer_def Let_def split: prod.splits)
qed


lemma export_layers_world:
  "export_layers E pr tot dir ls st w = (w', r) \<Longrightarrow>
     messages w' = messages w \<and> dialog_open w' = dialog_open w \<and>
     (\<exists>k \<le> length (checked_rasters ls).
        progress_calls w' = progress_calls w @
          (if pr \<and> tot \<noteq> 0
           then map (\<lambda>n. setValue (pct n tot)) [raster_count st + 1 .. raster_count st + int k]
           else [])) \<and>
     (\<forall>q. (\<forall>path. q \<noteq> image_path dir path) \<longrightarrow> files w' q = files w q)"
proof (induction ls arbitrary: st w)
  case Nil
  then show ?case by (auto simp: checked_rasters_def)
next
  case (Cons lyr rest)
  obtain w1 r1 where step: "export_layer E pr tot dir lyr st w = (w1, r1)"
    by (cases "export_layer E pr tot dir lyr st w")
  show ?case
  proof (cases "isChecked lyr \<and> is_raster lyr")
    case False
    note skip = export_layer_skip [OF False step]
    show ?thesis
    proof (cases r1)
      case (Inl e)
      with Cons.prems step skip have "w' = w"
        by simp
      then show ?thesis
        by (intro conjI exI [of _ 0]) simp_all
    next
      case (Inr st1)
      with Cons.prems step have rest: "export_layers E pr tot dir rest st1 w1 = (w', r)"
        by simp
      from skip Inr have eq: "w1 = w" "raster_count st1 = raster_count st"
        by auto
      have chk: "checked_rasters (lyr # rest) = checked_rasters rest"
        using False by (simp add: checked_rasters_def)
      from Cons.IH [OF rest] show ?thesis
        unfolding chk eq by simp
    qed
  next
    case True
    then have c: "isChecked lyr" and i: "is_raster lyr"
      by auto
    have chk: "checked_rasters (lyr # rest) = lyr # checked_rasters rest"
      using True by (simp add: checked_rasters_def)
    show ?thesis
    proof (cases r1)
      case (Inl e)
      with Cons.prems step have w': "w' = w1"
        by simp
      from export_layer_raster_Inl [OF c i step [unfolded Inl]] show ?thesis
        unfolding w' by (intro conjI exI [of _ 0]) auto
    next
      case (Inr st1)
      with Cons.prems step have rest: "export_layers E pr tot dir rest st1 w1 = (w', r)"
        by simp
      from export_layer_raster_Inr [OF c i step [unfolded Inr]] obtain img where
        cnt: "raster_count st1 = raster_count st + 1" and
        msg: "messages w1 = messages w" "dialog_open w1 = dialog_open w" and
        prg: "progress_calls w1 = progress_calls w @
             (if pr \<and> tot \<noteq> 0 then [setValue (pct (raster_count st + 1) tot)] else [])" and
        fs: "files w1 = (files w)(image_path dir (source lyr) \<mapsto> PngFile img)"
        by blast
      from Cons.IH [OF rest] obtain k where
        k: "k \<le> length (checked_rasters rest)" and
        prg': "progress_calls w' = progress_calls w1 @
          (if pr \<and> tot \<noteq> 0
           then map (\<lambda>n. setValue (pct n tot)) [raster_count st1 + 1 .. raster_count st1 + int k]
           else [])" and
        other: "messages w' = messages w1" "dialog_open w' = dialog_open w1"
          "\<forall>q. (\<forall>path. q \<noteq> image_path dir path) \<longrightarrow> files w' q = files w1 q"
        by blast
      have up: "[raster_count st + 1 .. raster_count st + int (Suc k)] =
          (raster_count st + 1) # [raster_count st1 + 1 .. raster_count st1 + int k]"
        unfolding cnt by (subst upto_rec1) (simp_all add: add.assoc)
      have 1: "progress_calls w' = progress_calls w @
          (if pr \<and> tot \<noteq> 0
           then map (\<lambda>n. setValue (pct n tot)) [raster_count st + 1 .. raster_count st + int (Suc k)]
           else [])"
        unfolding up prg' prg by simp
      have 2: "Suc k \<le> length (checked_rasters (lyr # rest))"
        using k by (simp add: chk)
      have 3: "\<forall>q. (\<forall>path. q \<noteq> image_path dir path) \<longrightarrow> files w' q = files w q"
        using other(3) fs by auto
      have 4: "messages w' = messages w" "dialog_open w' = dialog_open w"
        using other(1,2) msg by simp_all
      show ?thesis
        by (intro conjI exI [of _ "Suc k"]) (rule 1 2 3 4)+
    qed
  qed
qed

lemma export_layers_append:
  "export_layers E pr tot dir (pre @ post) st w =
     (case export_layers E pr tot dir pre st w of
        (w1, Inl e) \<Rightarrow> (w1, Inl e)
      | (w1, Inr st1) \<Rightarrow> export_layers E pr tot dir post st1 w1)"
  by (induction pre arbitrary: st w) (auto split: prod.splits sum.splits)

subsection \<open>Packaging\<close>




lemma lookup_Qgis: "lookup_global ''Qgis'' = Inl (NameError ''Qgis'')"
  by (simp add: lookup_global_def module_globals_def)

lemma files_show_progress [simp]: "files (show_progress pr calls w) = files w"
  by (simp add: show_progress_def)

lemma progress_show_progress [simp]:
  "progress_calls (show_progress pr calls w) = progress_calls w @ (if pr then calls else [])"
  by (simp add: show_progress_def)

lemma other_show_progress [simp]:
  "messages (show_progress pr calls w) = messages w"
  "dialog_open (show_progress pr calls w) = dialog_open w"
  by (simp_all add: show_progress_def)

lemma run_export_packaged:
  assumes "output_path self = Some out" and "out \<noteq> []"
    and "export_layers E (progressBar self) (total_rasters (all_layers self))
           (join tmp ''rasters'') (all_layers self)
           \<lparr>doc = snd make_kml_root, collected = [], raster_count = 0\<rparr>
           (show_progress (progressBar self) [setValue 0, setVisible True] w) = (w2, Inr st)"
    and "package ((files w2)(join tmp ''doc.kml'' \<mapsto> XmlFile (kml_root (doc st))))
           (join tmp ''doc.kml'') (collected st) out = (fs4, Inr ())"
  shows "run_export E self tmp w =
     (show_progress (progressBar self) [setVisible False] (w2\<lparr>files := fs4\<rparr>))
       \<lparr>messages := messages w2 @ [Critical (message_of (NameError ''Qgis''))]\<rparr>"
  using assms
  by (simp add: run_export_def run_export_try_def Let_def lookup_Qgis show_progress_def)



subsection \<open>The runs of the instance\<close>

lemma strip_None: "strip ''<None>'' = ''<None>''"
  by code_simp

lemma strip_id: "strip ''id'' = ''id''"
  by code_simp

lemma lower_Name: "lower ''Name'' = ''name''"
  by code_simp


lemma read_towns_row: "read_props (currentText towns_row) = name_binding"
  by (simp add: read_props_def read_prop_def KML_PROPS_def enumerate_eq_zip no_text_def
      strip_None strip_id lower_Name towns_row_def upt_rec name_binding_def)


lemma vector_only_layers:
  "export_layers example_env True (total_rasters (all_layers vector_only))
     (join ''/tmp/x'' ''rasters'') (all_layers vector_only)
     \<lparr>doc = snd make_kml_root, collected = [], raster_count = 0\<rparr>
     (show_progress True [setValue 0, setVisible True] empty_world) =
   (after_towns, Inr \<lparr>doc = towns_named_document, collected = [], raster_count = 0\<rparr>)"
  by (simp add: vector_only_def export_layer_def towns_row_def [THEN arg_cong, of isChecked]
      towns_row_def [THEN arg_cong, of is_raster] towns_row_def [THEN arg_cong, of source]
      read_towns_row towns_named_export make_kml_root_def show_progress_def empty_world_def
      after_towns_def)


lemma vector_only_run:
  "run_export example_env vector_only ''/tmp/x'' empty_world =
     (show_progress True [setVisible False]
        (after_towns\<lparr>files := [''/out/a.kml'' \<mapsto> XmlFile (kml_root towns_named_document)]\<rparr>))
     \<lparr>messages := [Critical (message_of (NameError ''Qgis''))]\<rparr>"
proof -
  have o: "output_path vector_only = Some ''/out/a.kml''" "''/out/a.kml'' \<noteq> []"
    by (simp_all add: vector_only_def)
  have pb: "progressBar vector_only = True"
    by (simp add: vector_only_def)
  have p: "package ((files after_towns)(join ''/tmp/x'' ''doc.kml'' \<mapsto>
        XmlFile (kml_root (doc \<lparr>doc = towns_named_document, collected = [], raster_count = 0\<rparr>))))
      (join ''/tmp/x'' ''doc.kml'')
      (collected \<lparr>doc = towns_named_document, collected = [], raster_count = 0\<rparr>) ''/out/a.kml'' =
      ([''/out/a.kml'' \<mapsto> XmlFile (kml_root towns_named_document)], Inr ())"
    by (simp add: package_def after_towns_def kml_file)
  have l: "export_layers example_env (progressBar vector_only)
      (total_rasters (all_layers vector_only)) (join ''/tmp/x'' ''rasters'') (all_layers vector_only)
      \<lparr>doc = snd make_kml_root, collected = [], raster_count = 0\<rparr>
      (show_progress (progressBar vector_only) [setValue 0, setVisible True] empty_world) =
      (after_towns, Inr \<lparr>doc = towns_named_document, collected = [], raster_count = 0\<rparr>)"
    unfolding pb by (rule vector_only_layers)
  from run_export_packaged [OF o l p] show ?thesis
    by (simp add: pb after_towns_def)
qed


subsection \<open>The artifact\<close>



subsection \<open>The progress bar\<close>






subsection \<open>Errors\<close>

text \<open>
  What does hold of errors.  A layer that fails ends the loop, whatever follows it in
  the table; the output path is then left as it was and the exception's text is the one
  message shown; and every run, failed or not, ends in exactly one error box.
\<close>

lemma failing_layer_stops:
  assumes "export_layers E pr tot dir pre st w = (w1, Inr st1)"
    and "export_layer E pr tot dir lyr st1 w1 = (w2, Inl e)"
  shows "export_layers E pr tot dir (pre @ lyr # post) st w = (w2, Inl e)"
  using assms by (simp add: export_layers_append)

lemma failing_layer_keeps_output:
  fixes w :: "'img world"
  assumes "output_path self = Some out" and "out \<noteq> []" and "\<not> prefix tmp out"
    and "export_layers E (progressBar self) (total_rasters (all_layers self))
           (join tmp ''rasters'') (all_layers self)
           \<lparr>doc = snd make_kml_root, collected = [], raster_count = 0\<rparr>
           (show_progress (progressBar self) [setValue 0, setVisible True] w) = (w2, Inl e)"
  shows "files (run_export E self tmp w) out = files w out \<and>
         messages (run_export E self tmp w) = messages w @ [Critical (message_of e)] \<and>
         dialog_open (run_export E self tmp w) = dialog_open w"
proof -
  have run: "run_export E self tmp w = w2\<lparr>messages := messages w2 @ [Critical (message_of e)]\<rparr>"
    using assms by (simp add: run_export_def run_export_try_def Let_def)
  have "\<forall>path. out \<noteq> image_path (join tmp ''rasters'') path"
    using assms(3) image_path_prefix [of tmp] by metis
  with export_layers_world [OF assms(4)] show ?thesis
    unfolding run by simp
qed

lemma run_export_ends_in_error_box:
  fixes w :: "'img world"
  shows "\<exists>e. messages (run_export E self tmp w) = messages w @ [Critical (message_of e)] \<and>
     dialog_open (run_export E self tmp w) = dialog_open w"
proof (cases "\<exists>out. output_path self = Some out \<and> out \<noteq> []")
  case False
  then have "messages (run_export E self tmp w) =
      messages w @ [Critical (message_of (ValueError ''Please select an output file''))] \<and>
      dialog_open (run_export E self tmp w) = dialog_open w"
    by (auto simp: run_export_def run_export_try_def split: option.splits)
  then show ?thesis
    by blast
next
  case True
  then obtain out where out: "output_path self = Some out" "out \<noteq> []"
    by blast
  let ?pr = "progressBar self"
  let ?w1 = "show_progress ?pr [setValue 0, setVisible True] w"
  obtain w2 r where layers: "export_layers E ?pr (total_rasters (all_layers self))
      (join tmp ''rasters'') (all_layers self)
      \<lparr>doc = snd make_kml_root, collected = [], raster_count = 0\<rparr> ?w1 = (w2, r)"
    by (cases "export_layers E ?pr (total_rasters (all_layers self))
      (join tmp ''rasters'') (all_layers self)
      \<lparr>doc = snd make_kml_root, collected = [], raster_count = 0\<rparr> ?w1")
  from export_layers_world [OF layers]
  have w2: "messages w2 = messages w" "dialog_open w2 = dialog_open w"
    by simp_all
  show ?thesis
  proof (cases r)
    case (Inl e)
    with layers out have "run_export E self tmp w =
        w2\<lparr>messages := messages w2 @ [Critical (message_of e)]\<rparr>"
      by (simp add: run_export_def run_export_try_def Let_def)
    with w2 show ?thesis
      by (intro exI [of _ e]) simp
  next
    case (Inr st)
    obtain fs4 r4 where pk: "package ((files w2)(join tmp ''doc.kml'' \<mapsto> XmlFile (kml_root (doc st))))
        (join tmp ''doc.kml'') (collected st) out = (fs4, r4)"
      by (cases "package ((files w2)(join tmp ''doc.kml'' \<mapsto> XmlFile (kml_root (doc st))))
        (join tmp ''doc.kml'') (collected st) out")
    show ?thesis
    proof (cases r4)
      case (Inl e)
      with layers out Inr pk have "run_export E self tmp w =
          w2\<lparr>files := fs4, messages := messages w2 @ [Critical (message_of e)]\<rparr>"
        by (simp add: run_export_def run_export_try_def Let_def)
      with w2 show ?thesis
        by (intro exI [of _ e]) simp
    next
      case r4: (Inr u)
      with layers out Inr pk have "run_export E self tmp w =
          (show_progress ?pr [setVisible False] (w2\<lparr>files := fs4\<rparr>))
            \<lparr>messages := messages w2 @ [Critical (message_of (NameError ''Qgis''))]\<rparr>"
        by (simp add: run_export_packaged)
      with w2 show ?thesis
        by (intro exI [of _ "NameError ''Qgis''"]) simp
    qed
  qed
qed

text \<open>
  Claim C8.  A run in which nothing fails writes the document to the output path and
  then raises: \<open>Qgis\<close> is not a name of the module, so evaluating \<^verbatim>\<open>Qgis.Info\<close> at
  line 433 is a \<open>NameError\<close>, which line 437 shows in the error box.  The success
  message is not pushed and the dialog stays open.
\<close>

theorem export_reports_error_after_writing:
  "files (run_export example_env vector_only ''/tmp/x'' empty_world) ''/out/a.kml'' =
     Some (XmlFile (kml_root towns_named_document)) \<and>
   messages (run_export example_env vector_only ''/tmp/x'' empty_world) =
     [Critical (''name '' @ quote @ ''Qgis'' @ quote @ '' is not defined'')] \<and>
   dialog_open (run_export example_env vector_only ''/tmp/x'' empty_world) = True"
  by (simp add: vector_only_run after_towns_def)

end
